theory Spec2Isabelle
  imports Main "HOL-Library.AList" "HOL-Library.Sublist"
begin

text \<open>
  The package \<^verbatim>\<open>kedge\<close> applies a templated Kubernetes manifest to a cluster. The sources
  hold two copies of the package, kedge.go and part_000, which share the values merge
  and the resolver word for word and differ in \<^verbatim>\<open>Apply\<close>, \<^verbatim>\<open>render\<close> and
  \<^verbatim>\<open>createOrUpdateResource\<close>. A definition named after a function embeds the text of
  kedge.go; the suffix \<open>_p0\<close> marks the embedding of the text of part_000. main.go is an
  earlier prototype of \<^verbatim>\<open>createOrUpdateResource\<close> (it updates where kedge.go patches) and
  is not embedded.
\<close>

section \<open>Values: the parameter set built from the value files\<close>

text \<open>
  A decoded value file is a Go \<^verbatim>\<open>map[string]interface{}\<close>. The dynamic values are
  modelled by \<open>val\<close>; a Go map is an association list whose keys are pairwise distinct
  (\<open>distinct (map fst d)\<close>), since a decoded mapping holds every key once. The maps the
  merge works on are trees produced by the decoder, so no two of them share a sub-map.
\<close>

datatype val =
    VNil
  | VBool bool
  | VNum int
  | VStr string
  | VList "val list"
  | VMap "(string \<times> val) list"

type_synonym vmap = "(string \<times> val) list"

text \<open>\<^verbatim>\<open>d[k]\<close>: the value stored under \<open>k\<close>, and \<^verbatim>\<open>nil\<close> when the key is absent.\<close>

definition index :: "vmap \<Rightarrow> string \<Rightarrow> val" where
  "index d k = (case map_of d k of None \<Rightarrow> VNil | Some v \<Rightarrow> v)"

text \<open>\<^verbatim>\<open>d[k] = v\<close>\<close>

definition assign :: "vmap \<Rightarrow> string \<Rightarrow> val \<Rightarrow> vmap" where
  "assign d k v = AList.update k v d"

text \<open>
  \<^verbatim>\<open>mergeMaps\<close> (kedge.go 255-292, the same text in the second copy of the package).
  The loop over \<^verbatim>\<open>d2\<close> is the recursion over its entries. The source merges the inner
  map \<^verbatim>\<open>n\<close> in place, which leaves \<^verbatim>\<open>d1[k]\<close> pointing at the merged map.
\<close>

function mergeMaps :: "vmap \<Rightarrow> vmap \<Rightarrow> bool \<Rightarrow> vmap" where
  "mergeMaps d1 [] recurseArrays = d1"
| "mergeMaps d1 ((k, v) # d2) recurseArrays =
     mergeMaps
       (case v of
          VMap m \<Rightarrow>
            (if index d1 k \<noteq> VNil then
               (case index d1 k of
                  VMap n \<Rightarrow> assign d1 k (VMap (mergeMaps n m recurseArrays))
                | _ \<Rightarrow> assign d1 k v)
             else assign d1 k v)
        | VList m \<Rightarrow>
            (if recurseArrays then
               (if index d1 k \<noteq> VNil then
                  (case index d1 k of
                     VList n \<Rightarrow> assign d1 k (VList (n @ m))
                   | _ \<Rightarrow> assign d1 k v)
                else assign d1 k v)
             else assign d1 k v)
        | _ \<Rightarrow> assign d1 k v)
       d2 recurseArrays"
  by pat_completeness auto
termination
  by (relation "measure (\<lambda>(d1, d2, r). size (VMap d2))") auto


text \<open>
  The value the loop body leaves under \<open>k\<close>, given the old value \<open>old = d1[k]\<close> and
  the new value \<open>v\<close>. It is used in the statements about \<open>mergeMaps\<close> only.
\<close>

definition mergedValue :: "val \<Rightarrow> val \<Rightarrow> bool \<Rightarrow> val" where
  "mergedValue old v recurseArrays =
     (case v of
        VMap m \<Rightarrow> (case old of VMap n \<Rightarrow> VMap (mergeMaps n m recurseArrays) | _ \<Rightarrow> v)
      | VList m \<Rightarrow>
          (if recurseArrays then (case old of VList n \<Rightarrow> VList (n @ m) | _ \<Rightarrow> v) else v)
      | _ \<Rightarrow> v)"

text \<open>A scalar is a value that is neither a mapping nor a sequence.\<close>

fun scalar :: "val \<Rightarrow> bool" where
  "scalar (VMap m) = False"
| "scalar (VList l) = False"
| "scalar v = True"

section \<open>Errors, files and the template engine\<close>

text \<open>
  A Go \<^verbatim>\<open>error\<close>. \<open>Wrapped msg e\<close> is \<^verbatim>\<open>fmt.Errorf(msg + ": %s", e)\<close> or
  \<^verbatim>\<open>errors.Wrapf(e, msg)\<close>; \<open>AlreadyExists\<close> is the server's answer that
  \<^verbatim>\<open>kerrors.IsAlreadyExists\<close> recognises. A nil error is \<open>None\<close>.
\<close>

datatype error = Failure string | AlreadyExists | Wrapped string error

definition IsAlreadyExists :: "error \<Rightarrow> bool" where
  "IsAlreadyExists err = (err = AlreadyExists)"

text \<open>
  The template file handed to \<^verbatim>\<open>render\<close>: a file of the caller, by its path, or the
  temporary file of the previous pass, by what that pass wrote to it.
\<close>

datatype tfile = Named string | Temporary string

text \<open>The operations on the temporary file that can fail.\<close>

datatype tmpop = TmpCreate | TmpStat | TmpParse | TmpOpen | TmpRead


section \<open>Documents, clients and the calls made on the cluster\<close>

record gvk =
  gvkGroup :: string
  gvkVersion :: string
  gvkKind :: string

text \<open>\<^verbatim>\<open>metav1.APIResource\<close>, one entry of the server's capability catalog.\<close>

record api_resource =
  resName :: string
  resSingularName :: string
  resNamespaced :: bool
  resGroup :: string
  resVersion :: string
  resKind :: string
  resVerbs :: "string list"
  resShortNames :: "string list"

text \<open>The zero value \<^verbatim>\<open>metav1.APIResource{}\<close>.\<close>

definition zeroAPIResource :: api_resource where
  "zeroAPIResource =
     \<lparr>resName = [], resSingularName = [], resNamespaced = False, resGroup = [],
      resVersion = [], resKind = [], resVerbs = [], resShortNames = []\<rparr>"

record gvr =
  gvrGroup :: string
  gvrVersion :: string
  gvrResource :: string

text \<open>
  The dynamic client for one resource collection; \<^verbatim>\<open>Namespace(ns)\<close> copies it with
  the namespace set, and the unscoped client has the empty namespace.
\<close>

record client =
  clientResource :: gvr
  clientNamespace :: string

definition Namespace :: "client \<Rightarrow> string \<Rightarrow> client" where
  "Namespace cl ns = cl\<lparr>clientNamespace := ns\<rparr>"

text \<open>
  \<^verbatim>\<open>unstructured.Unstructured\<close>, seen through its accessors: \<^verbatim>\<open>GetAPIVersion\<close>,
  \<^verbatim>\<open>GetKind\<close>, \<^verbatim>\<open>GetName\<close>, \<^verbatim>\<open>GetNamespace\<close>, \<^verbatim>\<open>GetSelfLink\<close>,
  \<^verbatim>\<open>GetResourceVersion\<close>, \<^verbatim>\<open>GetUID\<close>, \<^verbatim>\<open>GetOwnerReferences\<close> (an accessor of an
  absent field gives the empty string or list), and every other field in \<open>objOther\<close>.
\<close>

record resource =
  objAPIVersion :: string
  objKind :: string
  objName :: string
  objNamespace :: string
  objSelfLink :: string
  objResourceVersion :: string
  objUID :: string
  objOwnerReferences :: "string list"
  objOther :: val

definition SetNamespace :: "resource \<Rightarrow> string \<Rightarrow> resource" where
  "SetNamespace obj ns = obj\<lparr>objNamespace := ns\<rparr>"

definition SetSelfLink :: "resource \<Rightarrow> string \<Rightarrow> resource" where
  "SetSelfLink obj l = obj\<lparr>objSelfLink := l\<rparr>"

definition SetResourceVersion :: "resource \<Rightarrow> string \<Rightarrow> resource" where
  "SetResourceVersion obj v = obj\<lparr>objResourceVersion := v\<rparr>"

definition SetUID :: "resource \<Rightarrow> string \<Rightarrow> resource" where
  "SetUID obj u = obj\<lparr>objUID := u\<rparr>"

definition SetOwnerReferences :: "resource \<Rightarrow> string list \<Rightarrow> resource" where
  "SetOwnerReferences obj refs = obj\<lparr>objOwnerReferences := refs\<rparr>"

definition SetGroupVersionKind :: "resource \<Rightarrow> gvk \<Rightarrow> resource" where
  "SetGroupVersionKind obj g =
     obj\<lparr>objAPIVersion :=
            (if gvkGroup g \<noteq> [] then gvkGroup g @ ''/'' @ gvkVersion g else gvkVersion g),
          objKind := gvkKind g\<rparr>"

text \<open>
  The byte slice given to \<^verbatim>\<open>createOrUpdateResource\<close> is represented by what
  \<^verbatim>\<open>yaml.Unmarshal\<close> makes of it: an error, a document without an \<^verbatim>\<open>items\<close> array
  (\<^verbatim>\<open>IsList()\<close> is false: the field is absent, null or not an array), or a document with
  an \<^verbatim>\<open>items\<close> array. An entry of the array is an object, whose bytes
  (\<^verbatim>\<open>json.Marshal(item)\<close>) decode to a manifest again, or a value that is not an object,
  or an object that \<^verbatim>\<open>json.Marshal\<close> rejects.
\<close>

datatype 'a entry = Object 'a | NotObject | Unencodable error

datatype manifest =
    Undecodable error
  | Single resource
  | Listing resource "manifest entry list"

text \<open>
  What the program does to the outside, in order: the executions of a template against
  a parameter set, the create and patch calls on the cluster with the client and the
  object or patch body sent, and the lines written with \<^verbatim>\<open>log\<close>.
\<close>

datatype event =
    Execute string vmap
  | CreateCall client resource
  | PatchCall client string resource
  | Log string "string list" "error option"

text \<open>
  The host the program runs on: \<^verbatim>\<open>ioutil.ReadFile\<close>, \<^verbatim>\<open>yaml.Unmarshal\<close> of a values
  file into a map, \<^verbatim>\<open>os.Stat\<close> (the name of the file), the parser and the executor of
  \<^verbatim>\<open>text/template\<close> with the sprig functions, the failures of the operations on a
  temporary file, and \<^verbatim>\<open>yaml.Unmarshal\<close> of a manifest.
\<close>

record host =
  readFile :: "string \<Rightarrow> error + string"
  yamlValues :: "string \<Rightarrow> error + vmap"
  osStat :: "string \<Rightarrow> error + string"
  tplParse :: "string \<Rightarrow> error option"
  tplExecute :: "string \<Rightarrow> vmap \<Rightarrow> error + string"
  tmpIO :: "tmpop \<Rightarrow> error option"
  yamlUnmarshal :: "string \<Rightarrow> manifest"

text \<open>
  The cluster behind a \<^verbatim>\<open>rest.Config\<close>. Every answer may depend on the calls made so
  far (the trace), as the state of a server does. \<open>objectKinds\<close> is
  \<^verbatim>\<open>scheme.Scheme.ObjectKinds\<close>, the local type catalog.
\<close>

record cluster =
  newDiscoveryClient :: "error option"
  serverResourcesForGroupVersion :: "event list \<Rightarrow> string \<Rightarrow> error + api_resource list"
  newDynamicClient :: "error option"
  createAnswer :: "event list \<Rightarrow> client \<Rightarrow> resource \<Rightarrow> error option"
  patchAnswer :: "event list \<Rightarrow> client \<Rightarrow> string \<Rightarrow> resource \<Rightarrow> error option"
  objectKinds :: "resource \<Rightarrow> error + gvk list"

section \<open>ValuesMerger: \<^verbatim>\<open>readValues\<close> and \<^verbatim>\<open>combineValues\<close>\<close>

definition readValues :: "host \<Rightarrow> string \<Rightarrow> error + vmap" where
  "readValues h path =
     (case readFile h path of
        Inl err \<Rightarrow> Inl (Failure (''unable to  read values file: '' @ path))
      | Inr content \<Rightarrow>
          (case yamlValues h content of
             Inl err \<Rightarrow> Inl (Failure ''unable decode the values content'')
           | Inr data \<Rightarrow> Inr data))"

text \<open>The loop of \<^verbatim>\<open>combineValues\<close>; Go returns the data merged so far with the error.\<close>

fun combineLoop :: "host \<Rightarrow> vmap \<Rightarrow> string list \<Rightarrow> bool \<Rightarrow> vmap \<times> error option" where
  "combineLoop h data [] recurseArrays = (data, None)"
| "combineLoop h data (file # files) recurseArrays =
     (case readValues h file of
        Inl err \<Rightarrow> (data, Some err)
      | Inr d \<Rightarrow> combineLoop h (mergeMaps data d recurseArrays) files recurseArrays)"

definition combineValues :: "host \<Rightarrow> string list \<Rightarrow> bool \<Rightarrow> vmap \<times> error option" where
  "combineValues h filesToMerge recurseArrays = combineLoop h [] filesToMerge recurseArrays"

section \<open>TemplateRenderer\<close>

text \<open>\<^verbatim>\<open>strings.Contains\<close>\<close>

fun Contains :: "string \<Rightarrow> string \<Rightarrow> bool" where
  "Contains [] substr = (substr = [])"
| "Contains (c # s) substr = (prefix substr (c # s) \<or> Contains s substr)"

text \<open>
  \<^verbatim>\<open>bufio.Scanner\<close> with the default split function: the lines of the text, the last
  one also without a newline; \<^verbatim>\<open>Text()\<close> drops one trailing carriage return. A line
  of \<^verbatim>\<open>bufio.MaxScanTokenSize\<close> bytes or more stops the scan with \<^verbatim>\<open>ErrTooLong\<close>.
\<close>

fun scanLines :: "string \<Rightarrow> string \<Rightarrow> string list" where
  "scanLines cur [] = (if cur = [] then [] else [cur])"
| "scanLines cur (c # s) =
     (if c = CHR 0x0A then cur # scanLines [] s else scanLines (cur @ [c]) s)"

definition dropCR :: "string \<Rightarrow> string" where
  "dropCR l = (if l \<noteq> [] \<and> last l = CHR 0x0D then butlast l else l)"

definition maxScanTokenSize :: nat where
  "maxScanTokenSize = 65536"

definition ErrTooLong :: error where
  "ErrTooLong = Failure ''bufio.Scanner: token too long''"

fun scanFor :: "string list \<Rightarrow> string \<Rightarrow> error + bool" where
  "scanFor [] substring = Inr False"
| "scanFor (l # ls) substring =
     (if maxScanTokenSize \<le> length l then Inl ErrTooLong
      else if Contains (dropCR l) substring then Inr True
      else scanFor ls substring)"

text \<open>
  \<^verbatim>\<open>fileContains\<close> (kedge.go 229-248); its only caller gives it the temporary file,
  here by its content.
\<close>

definition fileContains :: "host \<Rightarrow> string \<Rightarrow> string \<Rightarrow> error + bool" where
  "fileContains h content substring =
     (case tmpIO h TmpOpen of
        Some err \<Rightarrow> Inl err
      | None \<Rightarrow> scanFor (scanLines [] content) substring)"

text \<open>\<^verbatim>\<open>tpl.ParseFiles(templateFile)\<close>: read the file, parse its text.\<close>

definition ParseFiles :: "host \<Rightarrow> tfile \<Rightarrow> error + string" where
  "ParseFiles h templateFile =
     (case (case templateFile of
              Named path \<Rightarrow> readFile h path
            | Temporary written \<Rightarrow>
                (case tmpIO h TmpParse of Some err \<Rightarrow> Inl err | None \<Rightarrow> Inr written)) of
        Inl err \<Rightarrow> Inl err
      | Inr text \<Rightarrow> (case tplParse h text of Some err \<Rightarrow> Inl err | None \<Rightarrow> Inr text))"

text \<open>\<^verbatim>\<open>ioutil.ReadFile(tmp.Name())\<close> on the temporary file holding \<open>written\<close>.\<close>

definition ReadTemp :: "host \<Rightarrow> string \<Rightarrow> error + string" where
  "ReadTemp h written = (case tmpIO h TmpRead of Some err \<Rightarrow> Inl err | None \<Rightarrow> Inr written)"

text \<open>
  \<^verbatim>\<open>render\<close> of kedge.go (162-195). The \<^verbatim>\<open>os.FileInfo\<close> argument only names the
  template and is left out. The recursion has no bound in the source, so the function is
  partial: \<open>None\<close> is a rendering that never returns.
\<close>

partial_function (option) render ::
    "host \<Rightarrow> tfile \<Rightarrow> vmap \<Rightarrow> event list \<Rightarrow> (event list \<times> (error + string)) option" where
  "render h templateFile data tr =
     (case ParseFiles h templateFile of
        Inl err \<Rightarrow> Some (tr, Inl err)
      | Inr tpl \<Rightarrow>
     (case tmpIO h TmpCreate of
        Some err \<Rightarrow> Some (tr, Inl err)
      | None \<Rightarrow>
     (case tmpIO h TmpStat of
        Some err \<Rightarrow> Some (tr, Inl err)
      | None \<Rightarrow>
     (case tplExecute h tpl data of
        Inl err \<Rightarrow> Some (tr @ [Execute tpl data], Inl err)
      | Inr written \<Rightarrow>
     (case fileContains h written ''{{'' of
        Inl err \<Rightarrow> Some (tr @ [Execute tpl data], Inl err)
      | Inr hasTplSyntax \<Rightarrow>
          if hasTplSyntax then render h (Temporary written) data (tr @ [Execute tpl data])
          else Some (tr @ [Execute tpl data], ReadTemp h written))))))"

declare render.simps [code]

text \<open>
  \<^verbatim>\<open>render\<close> of the second copy of the package (194-214): one pass, no scan of the
  output and no second call.
\<close>

definition render_p0 ::
    "host \<Rightarrow> tfile \<Rightarrow> vmap \<Rightarrow> event list \<Rightarrow> event list \<times> (error + string)" where
  "render_p0 h templateFile data tr =
     (case ParseFiles h templateFile of
        Inl err \<Rightarrow> (tr, Inl err)
      | Inr tpl \<Rightarrow>
     (case tmpIO h TmpCreate of
        Some err \<Rightarrow> (tr, Inl err)
      | None \<Rightarrow>
     (case tplExecute h tpl data of
        Inl err \<Rightarrow> (tr @ [Execute tpl data], Inl err)
      | Inr written \<Rightarrow> (tr @ [Execute tpl data], ReadTemp h written))))"


section \<open>ResourceResolver\<close>

text \<open>
  \<^verbatim>\<open>schema.ParseGroupVersion\<close>, \<^verbatim>\<open>GroupVersion.String\<close>,
  \<^verbatim>\<open>schema.FromAPIVersionAndKind\<close> and the \<^verbatim>\<open>GroupVersionKind\<close> of a document, which
  is empty, kind included, when the \<^verbatim>\<open>apiVersion\<close> does not parse. (The decoder reports
  such a document, like one without a kind, as an error, so a decoded document has an
  \<^verbatim>\<open>apiVersion\<close> that parses.)
\<close>

definition ParseGroupVersion :: "string \<Rightarrow> error + string \<times> string" where
  "ParseGroupVersion gv =
     (if gv = [] \<or> gv = ''/'' then Inr ([], [])
      else if count_list gv CHR ''/'' = 0 then Inr ([], gv)
      else if count_list gv CHR ''/'' = 1 then
        Inr (takeWhile (\<lambda>c. c \<noteq> CHR ''/'') gv, tl (dropWhile (\<lambda>c. c \<noteq> CHR ''/'') gv))
      else Inl (Failure (''unexpected GroupVersion string: '' @ gv)))"

definition groupVersionString :: "gvk \<Rightarrow> string" where
  "groupVersionString g =
     (if gvkGroup g \<noteq> [] then gvkGroup g @ ''/'' @ gvkVersion g else gvkVersion g)"

definition FromAPIVersionAndKind :: "string \<Rightarrow> string \<Rightarrow> gvk" where
  "FromAPIVersionAndKind apiVersion kind =
     (case ParseGroupVersion apiVersion of
        Inr (g, v) \<Rightarrow> \<lparr>gvkGroup = g, gvkVersion = v, gvkKind = kind\<rparr>
      | Inl err \<Rightarrow> \<lparr>gvkGroup = [], gvkVersion = [], gvkKind = kind\<rparr>)"

definition GroupVersionKind :: "resource \<Rightarrow> gvk" where
  "GroupVersionKind obj =
     (case ParseGroupVersion (objAPIVersion obj) of
        Inl err \<Rightarrow> \<lparr>gvkGroup = [], gvkVersion = [], gvkKind = []\<rparr>
      | Inr (g, v) \<Rightarrow> \<lparr>gvkGroup = g, gvkVersion = v, gvkKind = objKind obj\<rparr>)"

text \<open>
  The loop of \<^verbatim>\<open>getAPIResourceForGVK\<close> over \<^verbatim>\<open>resList.APIResources\<close>: \<open>res\<close> is
  the variable \<^verbatim>\<open>res\<close>, overwritten at the first match, where the loop breaks.
\<close>

fun scanAPIResources :: "gvk \<Rightarrow> api_resource \<Rightarrow> api_resource list \<Rightarrow> api_resource" where
  "scanAPIResources g res [] = res"
| "scanAPIResources g res (resource # rest) =
     (if resKind resource = gvkKind g \<and> \<not> Contains (resName resource) ''/'' then
        resource\<lparr>resGroup := gvkGroup g, resVersion := gvkVersion g\<rparr>
      else scanAPIResources g res rest)"

text \<open>\<^verbatim>\<open>getAPIResourceForGVK\<close> (kedge.go 132-154, the same text in part_000).\<close>

definition getAPIResourceForGVK ::
    "cluster \<Rightarrow> event list \<Rightarrow> gvk \<Rightarrow> event list \<times> api_resource \<times> error option" where
  "getAPIResourceForGVK config tr g =
     (let res = zeroAPIResource in
      case newDiscoveryClient config of
        Some err \<Rightarrow>
          (tr @ [Log ''[ERROR] unable to create discovery client'' [] (Some err)], res, Some err)
      | None \<Rightarrow>
          (case serverResourcesForGroupVersion config tr (groupVersionString g) of
             Inl err \<Rightarrow>
               (tr @ [Log ''[ERROR] unable to retrieve resource list for''
                        [groupVersionString g] (Some err)], res, Some err)
           | Inr resList \<Rightarrow> (tr, scanAPIResources g res resList, None)))"

text \<open>\<^verbatim>\<open>getDynamicClientOnKind\<close> (kedge.go 110-130, the same text in part_000).\<close>

definition getDynamicClientOnKind ::
    "cluster \<Rightarrow> event list \<Rightarrow> string \<Rightarrow> string \<Rightarrow> event list \<times> (error + client \<times> bool)" where
  "getDynamicClientOnKind config tr apiversion kind =
     (let g = FromAPIVersionAndKind apiversion kind in
      case getAPIResourceForGVK config tr g of
        (tr1, apiRes, Some err) \<Rightarrow>
          (tr1 @ [Log ''[ERROR] unable to get apiresource from unstructured''
                    [groupVersionString g, gvkKind g] (Some err)],
           Inl (Wrapped ''unable to get apiresource from unstructured'' err))
      | (tr1, apiRes, None) \<Rightarrow>
          (let r = \<lparr>gvrGroup = resGroup apiRes, gvrVersion = resVersion apiRes,
                    gvrResource = resName apiRes\<rparr> in
           case newDynamicClient config of
             Some err \<Rightarrow>
               (tr1 @ [Log ''[ERROR] unable to get dynamic client'' [] (Some err)], Inl err)
           | None \<Rightarrow>
               (tr1, Inr (\<lparr>clientResource = r, clientNamespace = []\<rparr>, resNamespaced apiRes))))"

section \<open>Reconciler\<close>

text \<open>
  \<^verbatim>\<open>createOrUpdateResource\<close> of kedge.go from the \<^verbatim>\<open>GroupVersionKind\<close> on (73-106):
  one document that is not a list. \<open>obj\<close> is the decoded document, which also stands
  for the bytes \<^verbatim>\<open>b\<close> sent as the patch body. Failures are logged, nothing is returned.
\<close>

definition reconcile :: "cluster \<Rightarrow> resource \<Rightarrow> string \<Rightarrow> event list \<Rightarrow> event list" where
  "reconcile config obj namespace tr =
     (let g = GroupVersionKind obj in
      case getDynamicClientOnKind config tr (groupVersionString g) (gvkKind g) of
        (tr1, Inl err) \<Rightarrow>
          tr1 @ [Log ''ERROR: could not get a client to handle resource:'' [] (Some err)]
      | (tr1, Inr (namespaceableResourceClient, isNamespaced)) \<Rightarrow>
          (let dynamicClient =
                 (if isNamespaced then Namespace namespaceableResourceClient namespace
                  else namespaceableResourceClient);
               obj1 = SetNamespace obj namespace;
               obj2 = SetResourceVersion obj1 [];
               obj3 = SetUID obj2 [];
               obj4 = SetOwnerReferences obj3 [];
               tr2 = tr1 @ [CreateCall dynamicClient obj4]
           in case createAnswer config tr1 dynamicClient obj4 of
                Some err \<Rightarrow>
                  (if IsAlreadyExists err then
                     (let tr3 = tr2 @ [Log ''already exists. Updating resource''
                                         [gvkKind g, namespace, objName obj4] None];
                          tr4 = tr3 @ [PatchCall dynamicClient (objName obj4) obj]
                      in case patchAnswer config tr3 dynamicClient (objName obj4) obj of
                           Some err \<Rightarrow>
                             tr4 @ [Log ''ERROR: could not patch''
                                      [gvkKind g, namespace, objName obj4] (Some err)]
                         | None \<Rightarrow>
                             tr4 @ [Log ''has been updated''
                                      [gvkKind g, namespace, objName obj4] None])
                   else tr2 @ [Log ''ERROR: could not create''
                                 [gvkKind g, namespace, objName obj4] (Some err)])
              | None \<Rightarrow>
                  tr2 @ [Log ''has been created'' [gvkKind g, namespace, objName obj4] None]))"

text \<open>
  \<^verbatim>\<open>createOrUpdateResource\<close> of kedge.go (51-107) with the callback given to
  \<^verbatim>\<open>EachListItem\<close>. \<^verbatim>\<open>EachListItem\<close> of the apimachinery library calls the function on
  the items in order and stops at the first error, of an item that is not an object or
  of the function; this callback returns an error only when \<^verbatim>\<open>json.Marshal\<close> fails, and
  the caller drops what \<^verbatim>\<open>EachListItem\<close> returns.
\<close>

function createOrUpdateResource :: "cluster \<Rightarrow> manifest \<Rightarrow> string \<Rightarrow> event list \<Rightarrow> event list"
  and EachListItem :: "cluster \<Rightarrow> manifest entry list \<Rightarrow> string \<Rightarrow> event list \<Rightarrow> event list"
where
  "createOrUpdateResource config (Undecodable err) namespace tr =
     tr @ [Log ''ERROR: could not unmarshal resource:'' [] (Some err)]"
| "createOrUpdateResource config (Listing obj its) namespace tr =
     EachListItem config its namespace tr"
| "createOrUpdateResource config (Single obj) namespace tr = reconcile config obj namespace tr"
| "EachListItem config [] namespace tr = tr"
| "EachListItem config (NotObject # rest) namespace tr = tr"
| "EachListItem config (Unencodable err # rest) namespace tr = tr"
| "EachListItem config (Object item # rest) namespace tr =
     EachListItem config rest namespace (createOrUpdateResource config item namespace tr)"
  by pat_completeness auto
termination
  by (relation "measure (case_sum (\<lambda>(c, m, ns, tr). size m)
                                  (\<lambda>(c, its, ns, tr). size_list (size_entry size) its))")
     auto

text \<open>\<^verbatim>\<open>makeNewPatchableData\<close> (part_000 173-186); the encoder's error is dropped there.\<close>

definition makeNewPatchableData :: "cluster \<Rightarrow> resource \<Rightarrow> error + resource" where
  "makeNewPatchableData config obj =
     (case objectKinds config obj of
        Inl err \<Rightarrow> Inl err
      | Inr gvks \<Rightarrow>
          (case gvks of
             [] \<Rightarrow> Inl (Failure ''No gvks identified'')
           | g # others \<Rightarrow> Inr (SetGroupVersionKind obj g)))"

text \<open>
  \<^verbatim>\<open>createOrUpdateResource\<close> of part_000 from the \<^verbatim>\<open>GroupVersionKind\<close> on (76-123).
  Failures are returned.
\<close>

definition reconcile_p0 ::
    "cluster \<Rightarrow> resource \<Rightarrow> string \<Rightarrow> event list \<Rightarrow> event list \<times> error option" where
  "reconcile_p0 config obj namespace tr =
     (let g = GroupVersionKind obj in
      if gvkKind g = ''List'' then (tr, None)
      else
        case getDynamicClientOnKind config tr (groupVersionString g) (gvkKind g) of
          (tr1, Inl err) \<Rightarrow>
            (tr1, Some (Wrapped ''ERROR: could not get a client to handle resource'' err))
        | (tr1, Inr (namespaceableResourceClient, isNamespaced)) \<Rightarrow>
            (let (namespace, obj, dynamicClient) =
                   (if isNamespaced then
                      (if objNamespace obj \<noteq> [] then
                         (objNamespace obj, obj,
                          Namespace namespaceableResourceClient (objNamespace obj))
                       else
                         (namespace, SetNamespace obj namespace,
                          Namespace namespaceableResourceClient namespace))
                    else (namespace, obj, namespaceableResourceClient));
                 obj1 = SetSelfLink obj [];
                 obj2 = SetResourceVersion obj1 [];
                 obj3 = SetUID obj2 [];
                 obj4 = SetOwnerReferences obj3 [];
                 tr2 = tr1 @ [CreateCall dynamicClient obj4]
             in case createAnswer config tr1 dynamicClient obj4 of
                  Some err \<Rightarrow>
                    (if IsAlreadyExists err then
                       (let tr3 = tr2 @ [Log ''already exists. Updating resource''
                                           [gvkKind g, namespace, objName obj4] None]
                        in case makeNewPatchableData config obj4 of
                             Inl err \<Rightarrow> (tr3, Some (Wrapped ''could not marshal resource'' err))
                           | Inr b \<Rightarrow>
                               (let tr4 = tr3 @ [PatchCall dynamicClient (objName b) b]
                                in case patchAnswer config tr3 dynamicClient (objName b) b of
                                     Some err \<Rightarrow>
                                       (tr4, Some (Wrapped ''ERROR: could not patch'' err))
                                   | None \<Rightarrow>
                                       (tr4 @ [Log ''has been updated''
                                                 [gvkKind g, namespace, objName b] None],
                                        None)))
                     else (tr2, Some (Wrapped ''ERROR: could not create'' err)))
                | None \<Rightarrow>
                    (tr2 @ [Log ''has been created'' [gvkKind g, namespace, objName obj4] None],
                     None)))"

text \<open>
  \<^verbatim>\<open>createOrUpdateResource\<close> of part_000 (53-124) with its callback: the callback
  returns what the call on the item returns, so \<^verbatim>\<open>EachListItem\<close> stops at the first
  item that fails, and the error is returned.
\<close>

function createOrUpdateResource_p0 ::
      "cluster \<Rightarrow> manifest \<Rightarrow> string \<Rightarrow> event list \<Rightarrow> event list \<times> error option"
  and EachListItem_p0 ::
      "cluster \<Rightarrow> manifest entry list \<Rightarrow> string \<Rightarrow> event list \<Rightarrow> event list \<times> error option"
where
  "createOrUpdateResource_p0 config (Undecodable err) namespace tr =
     (tr, Some (Wrapped ''ERROR: could not unmarshal resource'' err))"
| "createOrUpdateResource_p0 config (Listing obj its) namespace tr =
     EachListItem_p0 config its namespace tr"
| "createOrUpdateResource_p0 config (Single obj) namespace tr =
     reconcile_p0 config obj namespace tr"
| "EachListItem_p0 config [] namespace tr = (tr, None)"
| "EachListItem_p0 config (NotObject # rest) namespace tr =
     (tr, Some (Failure ''items member is not an object''))"
| "EachListItem_p0 config (Unencodable err # rest) namespace tr = (tr, Some err)"
| "EachListItem_p0 config (Object item # rest) namespace tr =
     (case createOrUpdateResource_p0 config item namespace tr of
        (tr1, Some err) \<Rightarrow> (tr1, Some err)
      | (tr1, None) \<Rightarrow> EachListItem_p0 config rest namespace tr1)"
  by pat_completeness auto
termination
  by (relation "measure (case_sum (\<lambda>(c, m, ns, tr). size m)
                                  (\<lambda>(c, its, ns, tr). size_list (size_entry size) its))")
     auto

section \<open>The entry point\<close>

text \<open>
  \<^verbatim>\<open>Apply\<close> of kedge.go (29-49). \<open>None\<close> is a call that never returns, the inner
  \<open>error option\<close> is the returned \<^verbatim>\<open>error\<close>.
\<close>

definition Apply ::
    "host \<Rightarrow> cluster \<Rightarrow> string \<Rightarrow> string \<Rightarrow> string list \<Rightarrow> (event list \<times> error option) option"
where
  "Apply h config inputFilename namespace valueFilenames =
     (case combineValues h valueFilenames False of
        (data, Some err) \<Rightarrow> Some ([], Some err)
      | (data, None) \<Rightarrow>
          (let data = assign data ''namespace'' (VStr namespace) in
           case osStat h inputFilename of
             Inl err \<Rightarrow> Some ([], Some err)
           | Inr f \<Rightarrow>
               (case render h (Named inputFilename) data [] of
                  None \<Rightarrow> None
                | Some (tr, Inl err) \<Rightarrow> Some (tr, None)
                | Some (tr, Inr b) \<Rightarrow>
                    Some (createOrUpdateResource config (yamlUnmarshal h b) namespace tr,
                          None))))"

text \<open>\<^verbatim>\<open>Apply\<close> of part_000 (32-51).\<close>

definition Apply_p0 ::
    "host \<Rightarrow> cluster \<Rightarrow> string \<Rightarrow> string \<Rightarrow> string list \<Rightarrow> event list \<times> error option"
where
  "Apply_p0 h config inputFilename namespace valueFilenames =
     (case combineValues h valueFilenames False of
        (data, Some err) \<Rightarrow> ([], Some (Wrapped ''error reading in values data'' err))
      | (data, None) \<Rightarrow>
          (let data = assign data ''namespace'' (VStr namespace) in
           case osStat h inputFilename of
             Inl err \<Rightarrow> ([], Some (Wrapped ''could not stat file'' err))
           | Inr f \<Rightarrow>
               (case render_p0 h (Named inputFilename) data [] of
                  (tr, Inl err) \<Rightarrow> (tr, Some (Wrapped ''could not render template'' err))
                | (tr, Inr b) \<Rightarrow>
                    createOrUpdateResource_p0 config (yamlUnmarshal h b) namespace tr)))"

section \<open>Observations and concrete inputs\<close>

text \<open>The template executions in a trace, with the parameter set each one was given.\<close>

fun executed :: "event list \<Rightarrow> (string \<times> vmap) list" where
  "executed [] = []"
| "executed (Execute t d # tr) = (t, d) # executed tr"
| "executed (e # tr) = executed tr"

text \<open>The objects sent in create calls, with the client each one was sent through.\<close>

fun created :: "event list \<Rightarrow> (client \<times> resource) list" where
  "created [] = []"
| "created (CreateCall cl obj # tr) = (cl, obj) # created tr"
| "created (e # tr) = created tr"

text \<open>
  A host for the examples. Two value files: \<^verbatim>\<open>base.yaml\<close> and \<^verbatim>\<open>prod.yaml\<close>, which
  overrides \<^verbatim>\<open>env\<close>, a nested \<^verbatim>\<open>port\<close> and also sets \<^verbatim>\<open>namespace\<close>; and
  \<^verbatim>\<open>nested.yaml\<close>, whose value \<^verbatim>\<open>a\<close> is a template fragment that refers to \<^verbatim>\<open>b\<close>.
  The engine of the examples expands a template that consists of one field action
  \<^verbatim>\<open>{{ .key }}\<close> to the string under that key, as \<^verbatim>\<open>text/template\<close> does, rejects the
  text \<^verbatim>\<open>{{\<close> as a syntax error, and copies any other text.
\<close>

definition baseValues :: vmap where
  "baseValues =
     [(''env'', VStr ''dev''),
      (''db'', VMap [(''host'', VStr ''db.local''), (''port'', VNum 5432)])]"

definition prodValues :: vmap where
  "prodValues =
     [(''env'', VStr ''prod''),
      (''db'', VMap [(''port'', VNum 6432)]),
      (''namespace'', VStr ''from-values'')]"

definition nestedValues :: vmap where
  "nestedValues = [(''a'', VStr ''{{ .b }}''), (''b'', VStr ''x'')]"

definition fieldAction :: "string \<Rightarrow> vmap \<Rightarrow> error + string" where
  "fieldAction t d =
     (if prefix ''{{ .'' t \<and> suffix '' }}'' t \<and> 7 \<le> length t then
        (case index d (take (length t - 7) (drop 4 t)) of
           VStr s \<Rightarrow> Inr s
         | other \<Rightarrow> Inr ''<no value>'')
      else Inr t)"

definition demoHost :: host where
  "demoHost =
     \<lparr>readFile = (\<lambda>path.
        if path = ''base.yaml'' then Inr ''env: dev''
        else if path = ''prod.yaml'' then Inr ''env: prod''
        else if path = ''nested.yaml'' then Inr ''a: {{ .b }}''
        else if path = ''a.tpl'' then Inr ''{{ .a }}''
        else if path = ''broken.tpl'' then Inr ''{{''
        else Inl (Failure ''no such file or directory'')),
      yamlValues = (\<lambda>content.
        if content = ''env: dev'' then Inr baseValues
        else if content = ''env: prod'' then Inr prodValues
        else if content = ''a: {{ .b }}'' then Inr nestedValues
        else Inl (Failure ''yaml: did not find expected node content'')),
      osStat = (\<lambda>path.
        if path \<in> set [''a.tpl'', ''broken.tpl''] then Inr path
        else Inl (Failure ''no such file or directory'')),
      tplParse = (\<lambda>text. if text = ''{{'' then Some (Failure ''unclosed action'') else None),
      tplExecute = fieldAction,
      tmpIO = (\<lambda>operation. None),
      yamlUnmarshal = (\<lambda>b. Undecodable (Failure ''Object Kind is missing''))\<rparr>"

text \<open>
  A cluster for the examples: the core group serves pods (with the status sub-resource
  listed first), config maps and namespaces; a create through a client without a resource
  name is answered with not-found, a create of the object named \<^verbatim>\<open>broken\<close> is refused,
  every other call succeeds. The local type catalog answers with the document's own
  group, version and kind.
\<close>

definition coreV1 :: "api_resource list" where
  "coreV1 =
     [\<lparr>resName = ''pods/status'', resSingularName = [], resNamespaced = True, resGroup = [],
       resVersion = [], resKind = ''Pod'', resVerbs = [''get'', ''patch'', ''update''],
       resShortNames = []\<rparr>,
      \<lparr>resName = ''pods'', resSingularName = [], resNamespaced = True, resGroup = [],
       resVersion = [], resKind = ''Pod'', resVerbs = [''create'', ''get'', ''patch''],
       resShortNames = [''po'']\<rparr>,
      \<lparr>resName = ''configmaps'', resSingularName = [], resNamespaced = True, resGroup = [],
       resVersion = [], resKind = ''ConfigMap'', resVerbs = [''create'', ''get'', ''patch''],
       resShortNames = [''cm'']\<rparr>,
      \<lparr>resName = ''namespaces'', resSingularName = [], resNamespaced = False, resGroup = [],
       resVersion = [], resKind = ''Namespace'', resVerbs = [''create'', ''get'', ''patch''],
       resShortNames = [''ns'']\<rparr>]"

definition demoCluster :: cluster where
  "demoCluster =
     \<lparr>newDiscoveryClient = None,
      serverResourcesForGroupVersion = (\<lambda>tr gv.
        if gv = ''v1'' then Inr coreV1
        else Inl (Failure ''the server could not find the requested resource'')),
      newDynamicClient = None,
      createAnswer = (\<lambda>tr cl obj.
        if gvrResource (clientResource cl) = [] then
          Some (Failure ''the server could not find the requested resource'')
        else if objName obj = ''broken'' then Some (Failure ''admission webhook denied the request'')
        else None),
      patchAnswer = (\<lambda>tr cl n b. None),
      objectKinds = (\<lambda>obj. Inr [GroupVersionKind obj])\<rparr>"

definition configMap :: "string \<Rightarrow> string \<Rightarrow> resource" where
  "configMap n ns =
     \<lparr>objAPIVersion = ''v1'', objKind = ''ConfigMap'', objName = n, objNamespace = ns,
      objSelfLink = [], objResourceVersion = [], objUID = [], objOwnerReferences = [],
      objOther = VMap [(''data'', VMap [(''key'', VStr ''value'')])]\<rparr>"

text \<open>A config map as exported from a server, with the server-managed fields filled in.\<close>

definition exportedConfigMap :: resource where
  "exportedConfigMap =
     \<lparr>objAPIVersion = ''v1'', objKind = ''ConfigMap'', objName = ''settings'',
      objNamespace = ''default'',
      objSelfLink = ''/api/v1/namespaces/default/configmaps/settings'',
      objResourceVersion = ''4711'', objUID = ''0a1b'', objOwnerReferences = [''Deployment/app''],
      objOther = VMap [(''data'', VMap [(''key'', VStr ''value'')])]\<rparr>"

text \<open>
  The document \<^verbatim>\<open>{apiVersion: v1, kind: List, items: null}\<close>, as a template leaves it
  whose loop over the items produced nothing.
\<close>

definition emptyList :: resource where
  "emptyList =
     \<lparr>objAPIVersion = ''v1'', objKind = ''List'', objName = [], objNamespace = [],
      objSelfLink = [], objResourceVersion = [], objUID = [], objOwnerReferences = [],
      objOther = VMap []\<rparr>"

section \<open>Properties of the values merge\<close>

lemma mergeMaps_step:
  "mergeMaps d1 ((k, v) # d2) r = mergeMaps (assign d1 k (mergedValue (index d1 k) v r)) d2 r"
  by (simp add: mergedValue_def split: val.splits)

lemma keys_assign: "fst ` set (assign d k v) = insert k (fst ` set d)"
  by (simp add: assign_def dom_update)

lemma map_of_assign: "map_of (assign d k v) = (map_of d)(k \<mapsto> v)"
  by (simp add: assign_def update_conv')

lemma index_assign: "index (assign d k v) k' = (if k' = k then v else index d k')"
  by (simp add: index_def map_of_assign)

text \<open>
  What one merge leaves under a key: the old entry where the new source has none, and
  otherwise the value the loop body computes from the old and the new value. The order
  in which the loop visits the keys of \<open>d2\<close> therefore does not matter.
\<close>

lemma map_of_mergeMaps:
  "distinct (map fst d2) \<Longrightarrow>
   map_of (mergeMaps d1 d2 r) k =
     (case map_of d2 k of
        None \<Rightarrow> map_of d1 k
      | Some v \<Rightarrow> Some (mergedValue (index d1 k) v r))"
proof (induction d2 arbitrary: d1)
  case Nil
  show ?case by simp
next
  case (Cons e d2)
  obtain k' v' where e: "e = (k', v')" by (cases e)
  from Cons.prems have d: "distinct (map fst d2)" and nk: "k' \<notin> fst ` set d2"
    by (auto simp: e)
  have none: "map_of d2 k' = None" using nk by (simp add: map_of_eq_None_iff)
  show ?case
  proof (cases "k = k'")
    case True
    then show ?thesis
      unfolding e mergeMaps_step Cons.IH [OF d]
      by (simp add: none map_of_assign)
  next
    case False
    then show ?thesis
      unfolding e mergeMaps_step Cons.IH [OF d]
      by (simp add: map_of_assign index_assign split: option.splits)
  qed
qed

lemma mergedValue_scalar: "scalar v \<Longrightarrow> mergedValue old v r = v"
  by (cases v) (simp_all add: mergedValue_def)

lemma combineLoop_append:
  "combineLoop h acc (xs @ ys) r =
     (case combineLoop h acc xs r of
        (d, Some err) \<Rightarrow> (d, Some err)
      | (d, None) \<Rightarrow> combineLoop h d ys r)"
  by (induction xs arbitrary: acc) (auto split: sum.splits)

lemma combineLoop_untouched:
  "combineLoop h acc files r = (data, None) \<Longrightarrow>
   (\<forall>f \<in> set files. \<forall>d. readValues h f = Inr d \<longrightarrow> distinct (map fst d) \<and> k \<notin> fst ` set d) \<Longrightarrow>
   map_of data k = map_of acc k"
proof (induction files arbitrary: acc)
  case Nil
  then show ?case by simp
next
  case (Cons f files)
  from Cons.prems(1) obtain d where rd: "readValues h f = Inr d"
    and rest: "combineLoop h (mergeMaps acc d r) files r = (data, None)"
    by (auto split: sum.splits)
  from Cons.prems(2) rd have dist: "distinct (map fst d)" and nk: "k \<notin> fst ` set d"
    by auto
  have "map_of data k = map_of (mergeMaps acc d r) k"
    using Cons.IH [OF rest] Cons.prems(2) by simp
  also have "\<dots> = map_of acc k"
  proof -
    have "map_of d k = None" using nk by (simp add: map_of_eq_None_iff)
    then show ?thesis by (simp add: map_of_mergeMaps [OF dist])
  qed
  finally show ?case .
qed

text \<open>
  C10. Merging \<open>d2\<close> into \<open>d1\<close>, with either setting of the recurse-arrays flag, gives a
  mapping whose key set is the union of the key sets of \<open>d1\<close> and \<open>d2\<close>; so no key of
  \<open>d1\<close> is removed.
\<close>

theorem mergeMaps_keys:
  "fst ` set (mergeMaps d1 d2 recurseArrays) = fst ` set d1 \<union> fst ` set d2"
proof (induction d2 arbitrary: d1)
  case Nil
  show ?case by simp
next
  case (Cons e d2)
  obtain k v where e: "e = (k, v)" by (cases e)
  show ?case
    unfolding e mergeMaps_step Cons.IH keys_assign by auto
qed

text \<open>
  C4. Let the value files be read in order and all decode. (1) If the last file that
  defines a key gives it a scalar, the merged parameter set has that scalar under the
  key. (2) In one merge step, a key that holds a mapping in the accumulator and in the
  new source holds the recursive merge of the two mappings afterwards, so the same rules
  apply one level down. (3) In one merge step, a key of the new source whose old and new
  values are not both mappings (and not both sequences under the recurse-arrays flag)
  holds the new value afterwards, whatever the accumulator held.
\<close>

theorem combineValues_last_wins:
  assumes wf: "\<forall>f \<in> set (before @ file # after). \<forall>d. readValues h f = Inr d \<longrightarrow> distinct (map fst d)"
  shows "(combineValues h (before @ file # after) recurseArrays = (data, None) \<and>
          readValues h file = Inr d \<and> map_of d k = Some v \<and> scalar v \<and>
          (\<forall>f \<in> set after. \<forall>d'. readValues h f = Inr d' \<longrightarrow> k \<notin> fst ` set d')
          \<longrightarrow> map_of data k = Some v)
       \<and> (distinct (map fst src) \<and> map_of acc k = Some (VMap n) \<and> map_of src k = Some (VMap m)
          \<longrightarrow> map_of (mergeMaps acc src recurseArrays) k
                = Some (VMap (mergeMaps n m recurseArrays)))
       \<and> (distinct (map fst src) \<and> map_of src k = Some new \<and>
          \<not> (\<exists>n m. index acc k = VMap n \<and> new = VMap m) \<and>
          \<not> (recurseArrays \<and> (\<exists>n m. index acc k = VList n \<and> new = VList m))
          \<longrightarrow> map_of (mergeMaps acc src recurseArrays) k = Some new)"
proof (intro conjI impI)
  assume a: "combineValues h (before @ file # after) recurseArrays = (data, None) \<and>
          readValues h file = Inr d \<and> map_of d k = Some v \<and> scalar v \<and>
          (\<forall>f \<in> set after. \<forall>d'. readValues h f = Inr d' \<longrightarrow> k \<notin> fst ` set d')"
  then have run: "combineLoop h [] (before @ file # after) recurseArrays = (data, None)"
    and rd: "readValues h file = Inr d" and kv: "map_of d k = Some v" and sc: "scalar v"
    and later: "\<forall>f \<in> set after. \<forall>d'. readValues h f = Inr d' \<longrightarrow> k \<notin> fst ` set d'"
    by (simp_all add: combineValues_def)
  from run obtain acc0 where
    pre: "combineLoop h [] before recurseArrays = (acc0, None)" and
    post: "combineLoop h acc0 (file # after) recurseArrays = (data, None)"
    by (auto simp: combineLoop_append split: prod.splits option.splits)
  from post rd have tail: "combineLoop h (mergeMaps acc0 d recurseArrays) after recurseArrays = (data, None)"
    by simp
  from wf rd have dist: "distinct (map fst d)" by simp
  have untouched: "\<forall>f \<in> set after. \<forall>d'. readValues h f = Inr d' \<longrightarrow> distinct (map fst d') \<and> k \<notin> fst ` set d'"
    using wf later by auto
  have "map_of data k = map_of (mergeMaps acc0 d recurseArrays) k"
    by (rule combineLoop_untouched [OF tail untouched])
  also have "\<dots> = Some v"
    by (simp add: map_of_mergeMaps [OF dist] kv mergedValue_scalar [OF sc])
  finally show "map_of data k = Some v" .
next
  assume "distinct (map fst src) \<and> map_of acc k = Some (VMap n) \<and> map_of src k = Some (VMap m)"
  then show "map_of (mergeMaps acc src recurseArrays) k = Some (VMap (mergeMaps n m recurseArrays))"
    by (simp add: map_of_mergeMaps mergedValue_def index_def)
next
  assume a: "distinct (map fst src) \<and> map_of src k = Some new \<and>
          \<not> (\<exists>n m. index acc k = VMap n \<and> new = VMap m) \<and>
          \<not> (recurseArrays \<and> (\<exists>n m. index acc k = VList n \<and> new = VList m))"
  then have "mergedValue (index acc k) new recurseArrays = new"
    by (auto simp: mergedValue_def split: val.splits)
  with a show "map_of (mergeMaps acc src recurseArrays) k = Some new"
    by (simp add: map_of_mergeMaps)
qed

theorem combineValues_last_wins_witness:
  "combineValues demoHost [''base.yaml'', ''prod.yaml''] False =
     ([(''env'', VStr ''prod''),
       (''db'', VMap [(''host'', VStr ''db.local''), (''port'', VNum 6432)]),
       (''namespace'', VStr ''from-values'')], None)
   \<and> map_of [(''env'', VStr ''prod''),
              (''db'', VMap [(''host'', VStr ''db.local''), (''port'', VNum 6432)]),
              (''namespace'', VStr ''from-values'')] ''env'' = Some (VStr ''prod'')
   \<and> map_of (mergeMaps baseValues prodValues False) ''db''
       = Some (VMap (mergeMaps [(''host'', VStr ''db.local''), (''port'', VNum 5432)]
                               [(''port'', VNum 6432)] False))
   \<and> map_of (mergeMaps baseValues [(''db'', VStr ''none'')] False) ''db'' = Some (VStr ''none'')"
proof -
  have reads: "readValues demoHost ''base.yaml'' = Inr baseValues"
    "readValues demoHost ''prod.yaml'' = Inr prodValues"
    by (simp_all add: readValues_def demoHost_def)
  have wf: "\<forall>f \<in> set ([''base.yaml''] @ ''prod.yaml'' # []).
              \<forall>d. readValues demoHost f = Inr d \<longrightarrow> distinct (map fst d)"
    by (auto simp: reads baseValues_def prodValues_def)
  have run: "combineValues demoHost ([''base.yaml''] @ ''prod.yaml'' # []) False =
     ([(''env'', VStr ''prod''),
       (''db'', VMap [(''host'', VStr ''db.local''), (''port'', VNum 6432)]),
       (''namespace'', VStr ''from-values'')], None)"
    by (simp add: combineValues_def reads baseValues_def prodValues_def assign_def index_def)
  have k1: "map_of prodValues ''env'' = Some (VStr ''prod'')"
    by (simp add: prodValues_def)
  have k2: "distinct (map fst prodValues)
      \<and> map_of baseValues ''db'' = Some (VMap [(''host'', VStr ''db.local''), (''port'', VNum 5432)])
      \<and> map_of prodValues ''db'' = Some (VMap [(''port'', VNum 6432)])"
    by (simp add: baseValues_def prodValues_def)
  have k3: "distinct (map fst [(''db'', VStr ''none'')])
      \<and> map_of [(''db'', VStr ''none'')] ''db'' = Some (VStr ''none'')
      \<and> \<not> (\<exists>n m. index baseValues ''db'' = VMap n \<and> VStr ''none'' = VMap m)
      \<and> \<not> (False \<and> (\<exists>n m. index baseValues ''db'' = VList n \<and> VStr ''none'' = VList m))"
    by simp
  note a = combineValues_last_wins [OF wf, where recurseArrays = False and d = prodValues
      and k = "''env''" and v = "VStr ''prod''"
      and data = "[(''env'', VStr ''prod''),
       (''db'', VMap [(''host'', VStr ''db.local''), (''port'', VNum 6432)]),
       (''namespace'', VStr ''from-values'')]"]
  note b = combineValues_last_wins [OF wf, where recurseArrays = False and k = "''db''"
      and src = prodValues and acc = baseValues
      and n = "[(''host'', VStr ''db.local''), (''port'', VNum 5432)]"
      and m = "[(''port'', VNum 6432)]"]
  note c = combineValues_last_wins [OF wf, where recurseArrays = False and k = "''db''"
      and src = "[(''db'', VStr ''none'')]" and acc = baseValues and new = "VStr ''none''"]
  have p1: "map_of [(''env'', VStr ''prod''),
              (''db'', VMap [(''host'', VStr ''db.local''), (''port'', VNum 6432)]),
              (''namespace'', VStr ''from-values'')] ''env'' = Some (VStr ''prod'')"
    using a run reads k1 by simp
  have p2: "map_of (mergeMaps baseValues prodValues False) ''db''
       = Some (VMap (mergeMaps [(''host'', VStr ''db.local''), (''port'', VNum 5432)]
                               [(''port'', VNum 6432)] False))"
    using b k2 by blast
  have p3: "map_of (mergeMaps baseValues [(''db'', VStr ''none'')] False) ''db'' = Some (VStr ''none'')"
    using c k3 by blast
  from run p1 p2 p3 show ?thesis by simp
qed

section \<open>Properties of the resolver\<close>





section \<open>Properties of the reconciler\<close>

text \<open>The kind of a document whose \<^verbatim>\<open>apiVersion\<close> parses is its \<^verbatim>\<open>kind\<close> field.\<close>

lemma gvkKind_GroupVersionKind:
  "ParseGroupVersion (objAPIVersion obj) = Inr gv \<Longrightarrow> gvkKind (GroupVersionKind obj) = objKind obj"
  by (simp add: GroupVersionKind_def split: prod.splits)

text \<open>
  The create call of part_000: the client is scoped to the document's own namespace when
  the resource is namespaced and the document names one, and to the caller's namespace
  when the document names none, which is then written into the document; the object sent
  is that document with the self-link, the resource version, the UID and the owner
  references cleared and nothing else changed.
\<close>

lemma reconcile_p0_create:
  assumes "gvkKind (GroupVersionKind obj) \<noteq> ''List''"
    and "getDynamicClientOnKind config tr (groupVersionString (GroupVersionKind obj))
           (gvkKind (GroupVersionKind obj)) = (tr1, Inr (cl, isNamespaced))"
  shows "\<exists>rest. fst (reconcile_p0 config obj namespace tr) =
           tr1 @ CreateCall
                   (if isNamespaced then
                      Namespace cl (if objNamespace obj \<noteq> [] then objNamespace obj else namespace)
                    else cl)
                   (obj\<lparr>objNamespace :=
                          (if isNamespaced \<and> objNamespace obj = [] then namespace
                           else objNamespace obj),
                        objSelfLink := [], objResourceVersion := [], objUID := [],
                        objOwnerReferences := []\<rparr>) # rest"
  using assms
  by (auto simp: reconcile_p0_def Let_def SetNamespace_def SetSelfLink_def
      SetResourceVersion_def SetUID_def SetOwnerReferences_def
      split: option.splits sum.splits)

text \<open>
  The create call of kedge.go: the client is scoped to the caller's namespace, the
  caller's namespace is written into the document whatever it held, and the self-link is
  left as it was.
\<close>

lemma reconcile_create:
  assumes "getDynamicClientOnKind config tr (groupVersionString (GroupVersionKind obj))
           (gvkKind (GroupVersionKind obj)) = (tr1, Inr (cl, isNamespaced))"
  shows "\<exists>rest. reconcile config obj namespace tr =
           tr1 @ CreateCall
                   (if isNamespaced then Namespace cl namespace else cl)
                   (obj\<lparr>objNamespace := namespace, objResourceVersion := [], objUID := [],
                        objOwnerReferences := []\<rparr>) # rest"
  using assms
  by (auto simp: reconcile_def Let_def SetNamespace_def
      SetResourceVersion_def SetUID_def SetOwnerReferences_def
      split: option.splits sum.splits)

text \<open>A list without items: nothing is attempted and nothing is reported, in both copies.\<close>

lemma empty_items_dropped:
  "createOrUpdateResource config (Listing obj []) namespace tr = tr"
  "createOrUpdateResource_p0 config (Listing obj []) namespace tr = (tr, None)"
  by simp_all

text \<open>
  A document of kind \<^verbatim>\<open>List\<close> without an items array: part_000 returns at once.
\<close>

lemma list_kind_dropped_p0:
  "ParseGroupVersion (objAPIVersion obj) = Inr gv \<Longrightarrow> objKind obj = ''List'' \<Longrightarrow>
   createOrUpdateResource_p0 config (Single obj) namespace tr = (tr, None)"
  by (simp add: reconcile_p0_def gvkKind_GroupVersionKind)

lemma EachListItem_objects:
  "EachListItem config (map Object items) namespace tr =
     foldl (\<lambda>t item. createOrUpdateResource config item namespace t) tr items"
  by (induction items arbitrary: tr) simp_all

lemma EachListItem_p0_append:
  "EachListItem_p0 config (xs @ ys) namespace tr =
     (case EachListItem_p0 config xs namespace tr of
        (tr1, Some err) \<Rightarrow> (tr1, Some err)
      | (tr1, None) \<Rightarrow> EachListItem_p0 config ys namespace tr1)"
proof (induction xs arbitrary: tr)
  case Nil
  show ?case by simp
next
  case (Cons x xs)
  show ?case
    by (cases x) (simp_all add: Cons.IH split: prod.splits option.splits)
qed

text \<open>
  The trace only grows, and neither the resolver nor the reconciler executes a template:
  each of these functions returns the trace it was given, followed by events of its own
  that are not template executions.
\<close>

lemma executed_append [simp]: "executed (xs @ ys) = executed xs @ executed ys"
  by (induction xs rule: executed.induct) simp_all

lemma getAPIResourceForGVK_trace:
  "\<exists>ext. fst (getAPIResourceForGVK config tr g) = tr @ ext \<and> executed ext = []"
  by (simp add: getAPIResourceForGVK_def split: option.splits sum.splits)

lemma getDynamicClientOnKind_trace:
  "\<exists>ext. fst (getDynamicClientOnKind config tr apiversion kind) = tr @ ext \<and> executed ext = []"
proof -
  let ?g = "FromAPIVersionAndKind apiversion kind"
  obtain tr1 apiRes err where r: "getAPIResourceForGVK config tr ?g = (tr1, apiRes, err)"
    by (cases "getAPIResourceForGVK config tr ?g") auto
  from getAPIResourceForGVK_trace [of config tr ?g] r
  obtain ext where ext: "tr1 = tr @ ext" "executed ext = []" by auto
  show ?thesis
    using r ext
    by (auto simp: getDynamicClientOnKind_def Let_def split: option.splits)
qed

lemma reconcile_trace:
  "\<exists>ext. reconcile config obj namespace tr = tr @ ext \<and> executed ext = []"
proof -
  let ?g = "GroupVersionKind obj"
  obtain tr1 res where r:
    "getDynamicClientOnKind config tr (groupVersionString ?g) (gvkKind ?g) = (tr1, res)"
    by (cases "getDynamicClientOnKind config tr (groupVersionString ?g) (gvkKind ?g)") auto
  from getDynamicClientOnKind_trace [of config tr "groupVersionString ?g" "gvkKind ?g"] r
  obtain ext where ext: "tr1 = tr @ ext" "executed ext = []" by auto
  show ?thesis
    using r ext
    by (auto simp: reconcile_def Let_def split: option.splits sum.splits prod.splits)
qed

lemma reconcile_p0_trace:
  "\<exists>ext. fst (reconcile_p0 config obj namespace tr) = tr @ ext \<and> executed ext = []"
proof -
  let ?g = "GroupVersionKind obj"
  obtain tr1 res where r:
    "getDynamicClientOnKind config tr (groupVersionString ?g) (gvkKind ?g) = (tr1, res)"
    by (cases "getDynamicClientOnKind config tr (groupVersionString ?g) (gvkKind ?g)") auto
  from getDynamicClientOnKind_trace [of config tr "groupVersionString ?g" "gvkKind ?g"] r
  obtain ext where ext: "tr1 = tr @ ext" "executed ext = []" by auto
  show ?thesis
    using r ext
    by (auto simp: reconcile_p0_def Let_def split: option.splits sum.splits prod.splits)
qed

lemma createOrUpdateResource_trace:
  "\<exists>ext. createOrUpdateResource config m namespace tr = tr @ ext \<and> executed ext = []"
  "\<exists>ext. EachListItem config its namespace tr = tr @ ext \<and> executed ext = []"
proof (induction config m namespace tr and config its namespace tr
    rule: createOrUpdateResource_EachListItem.induct)
  case (3 config obj namespace tr)
  show ?case using reconcile_trace [of config obj namespace tr] by simp
next
  case (7 config item rest namespace tr)
  from 7(1) obtain e1 where e1:
    "createOrUpdateResource config item namespace tr = tr @ e1" "executed e1 = []" by auto
  from 7(2) obtain e2 where e2:
    "EachListItem config rest namespace (createOrUpdateResource config item namespace tr)
       = createOrUpdateResource config item namespace tr @ e2" "executed e2 = []" by auto
  have "EachListItem config (Object item # rest) namespace tr = tr @ (e1 @ e2)"
    using e1 e2 by simp
  moreover have "executed (e1 @ e2) = []" using e1 e2 by simp
  ultimately show ?case by blast
qed simp_all

lemma createOrUpdateResource_p0_trace:
  "\<exists>ext. fst (createOrUpdateResource_p0 config m namespace tr) = tr @ ext \<and> executed ext = []"
  "\<exists>ext. fst (EachListItem_p0 config its namespace tr) = tr @ ext \<and> executed ext = []"
proof (induction config m namespace tr and config its namespace tr
    rule: createOrUpdateResource_p0_EachListItem_p0.induct)
  case (3 config obj namespace tr)
  show ?case using reconcile_p0_trace [of config obj namespace tr] by simp
next
  case (7 config item rest namespace tr)
  obtain tr1 r where r: "createOrUpdateResource_p0 config item namespace tr = (tr1, r)"
    by (cases "createOrUpdateResource_p0 config item namespace tr") auto
  from 7(1) r obtain e1 where e1: "tr1 = tr @ e1" "executed e1 = []" by auto
  show ?case
  proof (cases r)
    case (Some err)
    with r e1 show ?thesis by simp
  next
    case None
    from 7(2) [OF r [symmetric, unfolded None] refl] obtain e2 where e2:
      "fst (EachListItem_p0 config rest namespace tr1) = tr1 @ e2" "executed e2 = []" by auto
    have "fst (EachListItem_p0 config (Object item # rest) namespace tr) = tr @ (e1 @ e2)"
      using r None e1 e2 by simp
    moreover have "executed (e1 @ e2) = []" using e1 e2 by simp
    ultimately show ?thesis by blast
  qed
qed simp_all

text \<open>
  C2, as the claim states it, fails on part_000: of a list of two config maps whose first
  one the server refuses, only the first is sent; the error is returned and the second
  item is never attempted.
\<close>

theorem list_stops_at_first_failure_p0:
  "createOrUpdateResource_p0 demoCluster
      (Listing emptyList [Object (Single (configMap ''broken'' [])),
                          Object (Single (configMap ''fine'' []))]) ''default'' []
   = ([CreateCall \<lparr>clientResource = \<lparr>gvrGroup = [], gvrVersion = ''v1'',
                                        gvrResource = ''configmaps''\<rparr>,
                     clientNamespace = ''default''\<rparr>
                  (configMap ''broken'' ''default'')],
      Some (Wrapped ''ERROR: could not create''
              (Failure ''admission webhook denied the request'')))"
  by (simp add: reconcile_p0_def getDynamicClientOnKind_def getAPIResourceForGVK_def
      GroupVersionKind_def FromAPIVersionAndKind_def ParseGroupVersion_def
      groupVersionString_def demoCluster_def coreV1_def configMap_def zeroAPIResource_def
      Namespace_def SetNamespace_def SetSelfLink_def SetResourceVersion_def SetUID_def
      SetOwnerReferences_def IsAlreadyExists_def Let_def)

text \<open>
  C2, amended. For a manifest that decodes to a list of object items: kedge.go processes
  every item, in order, whatever happened to the items before it; part_000 processes the
  items in order up to the first one whose processing returns an error, returns that
  error and does not attempt the later siblings. In both, the calls already made stay in
  the trace: nothing is undone.
\<close>

theorem list_items_processing:
  "createOrUpdateResource config (Listing obj (map Object items)) namespace tr
     = foldl (\<lambda>t item. createOrUpdateResource config item namespace t) tr items
   \<and> (createOrUpdateResource_p0 config (Listing obj (map Object items)) namespace tr = (tr1, None)
        \<longrightarrow> createOrUpdateResource_p0 config
              (Listing obj (map Object items @ Object item # rest)) namespace tr
            = (case createOrUpdateResource_p0 config item namespace tr1 of
                 (tr2, Some err) \<Rightarrow> (tr2, Some err)
               | (tr2, None) \<Rightarrow> EachListItem_p0 config rest namespace tr2))
   \<and> prefix tr (createOrUpdateResource config (Listing obj its) namespace tr)
   \<and> prefix tr (fst (createOrUpdateResource_p0 config (Listing obj its) namespace tr))"
proof (intro conjI impI)
  show "createOrUpdateResource config (Listing obj (map Object items)) namespace tr
     = foldl (\<lambda>t item. createOrUpdateResource config item namespace t) tr items"
    by (simp add: EachListItem_objects)
next
  assume "createOrUpdateResource_p0 config (Listing obj (map Object items)) namespace tr = (tr1, None)"
  then show "createOrUpdateResource_p0 config
              (Listing obj (map Object items @ Object item # rest)) namespace tr
            = (case createOrUpdateResource_p0 config item namespace tr1 of
                 (tr2, Some err) \<Rightarrow> (tr2, Some err)
               | (tr2, None) \<Rightarrow> EachListItem_p0 config rest namespace tr2)"
    by (simp add: EachListItem_p0_append)
next
  show "prefix tr (createOrUpdateResource config (Listing obj its) namespace tr)"
    using createOrUpdateResource_trace(1) [of config "Listing obj its" namespace tr]
    by (auto simp: prefix_def)
next
  show "prefix tr (fst (createOrUpdateResource_p0 config (Listing obj its) namespace tr))"
    using createOrUpdateResource_p0_trace(1) [of config "Listing obj its" namespace tr]
    by (auto simp: prefix_def)
qed

theorem list_items_processing_witness:
  "createOrUpdateResource_p0 demoCluster
      (Listing emptyList (map Object [Single (configMap ''first'' [])])) ''default'' []
     = ([CreateCall \<lparr>clientResource = \<lparr>gvrGroup = [], gvrVersion = ''v1'',
                                          gvrResource = ''configmaps''\<rparr>,
                       clientNamespace = ''default''\<rparr>
                    (configMap ''first'' ''default''),
         Log ''has been created'' [''ConfigMap'', ''default'', ''first''] None], None)
   \<and> snd (createOrUpdateResource_p0 demoCluster
        (Listing emptyList (map Object [Single (configMap ''first'' [])]
                            @ Object (Single (configMap ''broken'' []))
                            # [Object (Single (configMap ''fine'' []))])) ''default'' [])
     = Some (Wrapped ''ERROR: could not create''
               (Failure ''admission webhook denied the request''))
   \<and> map (objName \<circ> snd) (created (fst (createOrUpdateResource_p0 demoCluster
        (Listing emptyList (map Object [Single (configMap ''first'' [])]
                            @ Object (Single (configMap ''broken'' []))
                            # [Object (Single (configMap ''fine'' []))])) ''default'' [])))
     = [''first'', ''broken'']
   \<and> map (objName \<circ> snd) (created (createOrUpdateResource demoCluster
        (Listing emptyList (map Object [Single (configMap ''first'' []),
                                        Single (configMap ''broken'' []),
                                        Single (configMap ''fine'' [])])) ''default'' []))
     = [''first'', ''broken'', ''fine'']"
proof -
  let ?c = "\<lparr>clientResource = \<lparr>gvrGroup = [], gvrVersion = ''v1'', gvrResource = ''configmaps''\<rparr>,
             clientNamespace = ''default''\<rparr>"
  let ?tr1 = "[CreateCall ?c (configMap ''first'' ''default''),
               Log ''has been created'' [''ConfigMap'', ''default'', ''first''] None]"
  note evals = reconcile_p0_def reconcile_def getDynamicClientOnKind_def
      getAPIResourceForGVK_def
      GroupVersionKind_def FromAPIVersionAndKind_def ParseGroupVersion_def
      groupVersionString_def demoCluster_def coreV1_def configMap_def zeroAPIResource_def
      Namespace_def SetNamespace_def SetSelfLink_def SetResourceVersion_def SetUID_def
      SetOwnerReferences_def IsAlreadyExists_def Let_def
  have first: "createOrUpdateResource_p0 demoCluster
      (Listing emptyList (map Object [Single (configMap ''first'' [])])) ''default'' []
     = (?tr1, None)"
    by (simp add: evals)
  have second: "createOrUpdateResource_p0 demoCluster (Single (configMap ''broken'' []))
      ''default'' ?tr1
     = (?tr1 @ [CreateCall ?c (configMap ''broken'' ''default'')],
        Some (Wrapped ''ERROR: could not create''
               (Failure ''admission webhook denied the request'')))"
    by (simp add: evals)
  note step = list_items_processing [of demoCluster emptyList
      "[Single (configMap ''first'' [])]" "''default''" "[]" ?tr1
      "Single (configMap ''broken'' [])" "[Object (Single (configMap ''fine'' []))]"]
  from step first have stop: "createOrUpdateResource_p0 demoCluster
        (Listing emptyList (map Object [Single (configMap ''first'' [])]
                            @ Object (Single (configMap ''broken'' []))
                            # [Object (Single (configMap ''fine'' []))])) ''default'' []
     = (?tr1 @ [CreateCall ?c (configMap ''broken'' ''default'')],
        Some (Wrapped ''ERROR: could not create''
               (Failure ''admission webhook denied the request'')))"
    by (simp only: second prod.case option.case)
  have all: "createOrUpdateResource demoCluster
        (Listing emptyList (map Object [Single (configMap ''first'' []),
                                        Single (configMap ''broken'' []),
                                        Single (configMap ''fine'' [])])) ''default'' []
     = foldl (\<lambda>t item. createOrUpdateResource demoCluster item ''default'' t) []
         [Single (configMap ''first'' []), Single (configMap ''broken'' []),
          Single (configMap ''fine'' [])]"
    using list_items_processing [of demoCluster emptyList] by blast
  have names: "map (objName \<circ> snd) (created (foldl
         (\<lambda>t item. createOrUpdateResource demoCluster item ''default'' t) []
         [Single (configMap ''first'' []), Single (configMap ''broken'' []),
          Single (configMap ''fine'' [])])) = [''first'', ''broken'', ''fine'']"
    by (simp add: evals)
  show ?thesis
    unfolding stop all names using first by (simp add: configMap_def)
qed

text \<open>
  C3 on kedge.go: a config map that names the namespace \<^verbatim>\<open>prod\<close>, applied with the
  caller's namespace \<^verbatim>\<open>default\<close>, is created through a client scoped to \<^verbatim>\<open>default\<close>
  and with \<^verbatim>\<open>default\<close> written over its own namespace. (On part_000 the claim holds:
  \<open>reconcile_p0_create\<close>.)
\<close>

theorem createOrUpdateResource_overrides_namespace:
  "createOrUpdateResource demoCluster (Single (configMap ''settings'' ''prod'')) ''default'' []
   = [CreateCall \<lparr>clientResource = \<lparr>gvrGroup = [], gvrVersion = ''v1'',
                                       gvrResource = ''configmaps''\<rparr>,
                    clientNamespace = ''default''\<rparr>
                 (configMap ''settings'' ''default''),
      Log ''has been created'' [''ConfigMap'', ''default'', ''settings''] None]"
  by (simp add: reconcile_def getDynamicClientOnKind_def getAPIResourceForGVK_def
      GroupVersionKind_def FromAPIVersionAndKind_def ParseGroupVersion_def
      groupVersionString_def demoCluster_def coreV1_def configMap_def zeroAPIResource_def
      Namespace_def SetNamespace_def SetResourceVersion_def SetUID_def
      SetOwnerReferences_def IsAlreadyExists_def Let_def)

text \<open>
  C7 on kedge.go: an exported config map, applied to its own namespace, is sent to the
  server with its self-link still set; only the resource version, the UID and the owner
  references are cleared. (On part_000 the claim holds: \<open>reconcile_p0_create\<close>.)
\<close>

theorem createOrUpdateResource_keeps_selfLink:
  "created (createOrUpdateResource demoCluster (Single exportedConfigMap) ''default'' [])
   = [(\<lparr>clientResource = \<lparr>gvrGroup = [], gvrVersion = ''v1'', gvrResource = ''configmaps''\<rparr>,
        clientNamespace = ''default''\<rparr>,
       \<lparr>objAPIVersion = ''v1'', objKind = ''ConfigMap'', objName = ''settings'',
        objNamespace = ''default'',
        objSelfLink = ''/api/v1/namespaces/default/configmaps/settings'',
        objResourceVersion = [], objUID = [], objOwnerReferences = [],
        objOther = VMap [(''data'', VMap [(''key'', VStr ''value'')])]\<rparr>)]"
  by (simp add: reconcile_def getDynamicClientOnKind_def getAPIResourceForGVK_def
      GroupVersionKind_def FromAPIVersionAndKind_def ParseGroupVersion_def
      groupVersionString_def demoCluster_def coreV1_def exportedConfigMap_def
      zeroAPIResource_def
      Namespace_def SetNamespace_def SetResourceVersion_def SetUID_def
      SetOwnerReferences_def IsAlreadyExists_def Let_def)

text \<open>
  C9 on kedge.go: the document of kind \<^verbatim>\<open>List\<close> whose items are null is not a list for
  \<^verbatim>\<open>IsList\<close>; discovery finds no resource of kind \<^verbatim>\<open>List\<close> and returns the zero
  coordinate without an error, and a create is attempted through the client of the empty
  coordinate, which the server refuses and the program logs as an error. (part_000
  returns before discovery: \<open>list_kind_dropped_p0\<close>; with an empty items array both
  copies drop the document: \<open>empty_items_dropped\<close>.)
\<close>

theorem createOrUpdateResource_attempts_empty_List:
  "createOrUpdateResource demoCluster (Single emptyList) ''default'' []
   = [CreateCall \<lparr>clientResource = \<lparr>gvrGroup = [], gvrVersion = [], gvrResource = []\<rparr>,
                    clientNamespace = []\<rparr>
                 (emptyList\<lparr>objNamespace := ''default''\<rparr>),
      Log ''ERROR: could not create'' [''List'', ''default'', []]
        (Some (Failure ''the server could not find the requested resource''))]"
  by (simp add: reconcile_def getDynamicClientOnKind_def getAPIResourceForGVK_def
      GroupVersionKind_def FromAPIVersionAndKind_def ParseGroupVersion_def
      groupVersionString_def demoCluster_def coreV1_def emptyList_def zeroAPIResource_def
      Namespace_def SetNamespace_def SetResourceVersion_def SetUID_def
      SetOwnerReferences_def IsAlreadyExists_def Let_def)

section \<open>Properties of the scan for the marker\<close>

lemma Contains_sublist: "Contains s substr \<longleftrightarrow> sublist substr s"
  by (induction s) (simp_all add: sublist_Cons_right)

text \<open>The marker cannot lie across a character that is not an opening brace.\<close>

lemma Contains_marker_split:
  assumes "x \<noteq> CHR ''{''"
  shows "Contains (a @ x # s) ''{{'' \<longleftrightarrow> Contains a ''{{'' \<or> Contains s ''{{''"
proof (induction a)
  case Nil
  from assms show ?case by simp
next
  case (Cons c a)
  have "prefix ''{{'' (c # a @ x # s) \<longleftrightarrow> prefix ''{{'' (c # a)"
    using assms by (cases a) auto
  with Cons show ?case by auto
qed

lemma Contains_marker_dropCR: "Contains (dropCR l) ''{{'' \<longleftrightarrow> Contains l ''{{''"
proof (cases "l \<noteq> [] \<and> last l = CHR 0x0D")
  case True
  then have l: "l = butlast l @ CHR 0x0D # []" by (metis append_butlast_last_id)
  have "Contains (butlast l @ CHR 0x0D # []) ''{{'' \<longleftrightarrow> Contains (butlast l) ''{{''"
    by (subst Contains_marker_split) simp_all
  with l True show ?thesis by (simp add: dropCR_def)
next
  case False
  then show ?thesis by (auto simp: dropCR_def)
qed

lemma scanLines_marker:
  "(\<exists>l \<in> set (scanLines cur content). Contains l ''{{'') \<longleftrightarrow> Contains (cur @ content) ''{{''"
proof (induction content arbitrary: cur)
  case Nil
  show ?case by (cases cur) simp_all
next
  case (Cons c content)
  show ?case
  proof (cases "c = CHR 0x0A")
    case True
    have "Contains (cur @ c # content) ''{{'' \<longleftrightarrow> Contains cur ''{{'' \<or> Contains content ''{{''"
      using True by (subst Contains_marker_split) simp_all
    then show ?thesis
      using True Cons.IH [of "[]"] by simp
  next
    case False
    then show ?thesis
      using Cons.IH [of "cur @ [c]"] by simp
  qed
qed

lemma scanFor_marker:
  "\<forall>l \<in> set ls. length l < maxScanTokenSize \<Longrightarrow>
   scanFor ls ''{{'' = Inr (\<exists>l \<in> set ls. Contains l ''{{'')"
  by (induction ls) (simp_all add: Contains_marker_dropCR)

text \<open>
  When the temporary file opens and none of its lines reaches the scanner's token limit,
  \<^verbatim>\<open>fileContains\<close> tells whether the text holds the marker anywhere.
\<close>

lemma fileContains_marker:
  assumes "tmpIO h TmpOpen = None"
    and "\<forall>l \<in> set (scanLines [] content). length l < maxScanTokenSize"
  shows "fileContains h content ''{{'' = Inr (Contains content ''{{'')"
  using assms scanLines_marker [of "[]" content]
  by (simp add: fileContains_def scanFor_marker)

text \<open>A line of the token limit or longer ahead of the marker makes the scan fail.\<close>

lemma scanFor_too_long:
  "maxScanTokenSize \<le> length l \<Longrightarrow> scanFor (l # ls) substring = Inl ErrTooLong"
  by simp

section \<open>Properties of the renderer and of the entry point\<close>

text \<open>
  kedge.go: a pass whose output still holds the marker is followed by a rendering of
  that output, with the same parameter set.
\<close>

lemma render_again:
  assumes "ParseFiles h templateFile = Inr tpl"
    and "tmpIO h TmpCreate = None" and "tmpIO h TmpStat = None"
    and "tplExecute h tpl data = Inr written"
    and "fileContains h written ''{{'' = Inr True"
  shows "render h templateFile data tr = render h (Temporary written) data (tr @ [Execute tpl data])"
  by (subst render.simps) (simp add: assms)

text \<open>kedge.go: a pass whose output holds no marker ends the rendering.\<close>

lemma render_done:
  assumes "ParseFiles h templateFile = Inr tpl"
    and "tmpIO h TmpCreate = None" and "tmpIO h TmpStat = None"
    and "tplExecute h tpl data = Inr written"
    and "fileContains h written ''{{'' = Inr False"
  shows "render h templateFile data tr = Some (tr @ [Execute tpl data], ReadTemp h written)"
  by (subst render.simps) (simp add: assms)

text \<open>
  kedge.go: a parameter value that refers to a second parameter takes exactly two
  passes, when the second output holds no marker.
\<close>

lemma render_two_passes:
  assumes "ParseFiles h templateFile = Inr tpl"
    and "tmpIO h TmpCreate = None" and "tmpIO h TmpStat = None"
    and "tplExecute h tpl data = Inr first"
    and "fileContains h first ''{{'' = Inr True"
    and "ParseFiles h (Temporary first) = Inr first"
    and "tplExecute h first data = Inr second"
    and "fileContains h second ''{{'' = Inr False"
  shows "render h templateFile data tr =
           Some (tr @ [Execute tpl data, Execute first data], ReadTemp h second)"
  using render_again [OF assms(1-5), of tr]
    render_done [OF assms(6) assms(2,3) assms(7,8), of "tr @ [Execute tpl data]"]
  by simp

text \<open>Every template execution of a rendering is given the parameter set of the call.\<close>

lemma render_executes_with_data:
  assumes "render h templateFile data tr = Some (tr', res)"
  shows "\<exists>ext. tr' = tr @ ext \<and> (\<forall>td \<in> set (executed ext). snd td = data)"
  using assms
proof (induction h templateFile data tr "(tr', res)" arbitrary: tr' res rule: render.raw_induct [rotated 1, consumes 1, case_names 1])
  case (1 pass h templateFile data tr)
  show ?case
  proof (cases "ParseFiles h templateFile")
    case (Inl err)
    with 1(2) show ?thesis by simp
  next
    case (Inr tpl)
    note parsed = this
    show ?thesis
    proof (cases "tmpIO h TmpCreate = None \<and> tmpIO h TmpStat = None")
      case False
      with 1(2) parsed show ?thesis by (auto split: option.splits)
    next
      case True
      show ?thesis
      proof (cases "tplExecute h tpl data")
        case (Inl err)
        with 1(2) parsed True show ?thesis by auto
      next
        case (Inr written)
        note ran = this
        show ?thesis
        proof (cases "fileContains h written ''{{''")
          case (Inl err)
          with 1(2) parsed True ran show ?thesis by auto
        next
          case (Inr hasTplSyntax)
          show ?thesis
          proof (cases hasTplSyntax)
            case False
            with 1(2) parsed True ran Inr show ?thesis by auto
          next
            case yes: True
            from 1(2) parsed True ran Inr yes
            have approx: "pass h (Temporary written) data (tr @ [Execute tpl data]) = Some (tr', res)"
              by simp
            from 1(1) [OF approx] obtain ext where
              "tr' = (tr @ [Execute tpl data]) @ ext" "\<forall>td \<in> set (executed ext). snd td = data"
              by blast
            then have "tr' = tr @ (Execute tpl data # ext)"
              "\<forall>td \<in> set (executed (Execute tpl data # ext)). snd td = data"
              by simp_all
            then show ?thesis by blast
          qed
        qed
      qed
    qed
  qed
qed

lemma render_p0_executes_with_data:
  "\<exists>ext. fst (render_p0 h templateFile data tr) = tr @ ext \<and>
         (\<forall>td \<in> set (executed ext). snd td = data)"
  by (simp add: render_p0_def split: sum.splits option.splits)

text \<open>
  part_000 returns an error for each of the three hard failures of \<^verbatim>\<open>Apply\<close>.
\<close>

lemma Apply_p0_hard_failures:
  "snd (combineValues h valueFilenames False) = Some err \<Longrightarrow>
     snd (Apply_p0 h config inputFilename namespace valueFilenames)
       = Some (Wrapped ''error reading in values data'' err)"
  "snd (combineValues h valueFilenames False) = None \<Longrightarrow> osStat h inputFilename = Inl err \<Longrightarrow>
     snd (Apply_p0 h config inputFilename namespace valueFilenames)
       = Some (Wrapped ''could not stat file'' err)"
  "snd (combineValues h valueFilenames False) = None \<Longrightarrow> osStat h inputFilename = Inr f \<Longrightarrow>
   snd (render_p0 h (Named inputFilename)
         (assign (fst (combineValues h valueFilenames False)) ''namespace'' (VStr namespace)) [])
     = Inl err \<Longrightarrow>
     snd (Apply_p0 h config inputFilename namespace valueFilenames)
       = Some (Wrapped ''could not render template'' err)"
  by (auto simp: Apply_p0_def Let_def split: prod.splits option.splits sum.splits)

text \<open>
  kedge.go returns the error of the values merge and of the file stat, and returns nil
  when the rendering fails.
\<close>

lemma Apply_failures:
  "snd (combineValues h valueFilenames False) = Some err \<Longrightarrow>
     Apply h config inputFilename namespace valueFilenames = Some ([], Some err)"
  "snd (combineValues h valueFilenames False) = None \<Longrightarrow> osStat h inputFilename = Inl err \<Longrightarrow>
     Apply h config inputFilename namespace valueFilenames = Some ([], Some err)"
  "snd (combineValues h valueFilenames False) = None \<Longrightarrow> osStat h inputFilename = Inr f \<Longrightarrow>
   render h (Named inputFilename)
         (assign (fst (combineValues h valueFilenames False)) ''namespace'' (VStr namespace)) []
     = Some (tr, Inl err) \<Longrightarrow>
     Apply h config inputFilename namespace valueFilenames = Some (tr, None)"
  by (auto simp: Apply_def Let_def split: prod.splits option.splits sum.splits)

text \<open>
  C1 on kedge.go: the template \<^verbatim>\<open>broken.tpl\<close> holds an unclosed action; the rendering
  fails with the parser's error, and \<^verbatim>\<open>Apply\<close> returns nil. On the same input part_000
  returns the error.
\<close>

theorem Apply_returns_nil_on_render_failure:
  "render demoHost (Named ''broken.tpl'') (assign [] ''namespace'' (VStr ''default'')) []
     = Some ([], Inl (Failure ''unclosed action''))
   \<and> Apply demoHost demoCluster ''broken.tpl'' ''default'' [] = Some ([], None)
   \<and> Apply_p0 demoHost demoCluster ''broken.tpl'' ''default'' []
     = ([], Some (Wrapped ''could not render template'' (Failure ''unclosed action'')))"
proof -
  have r: "render demoHost (Named ''broken.tpl'') data [] = Some ([], Inl (Failure ''unclosed action''))"
    for data
    by (subst render.simps) (simp add: ParseFiles_def demoHost_def)
  have s: "osStat demoHost ''broken.tpl'' = Inr ''broken.tpl''"
    by (simp add: demoHost_def)
  have "Apply demoHost demoCluster ''broken.tpl'' ''default'' [] = Some ([], None)"
    by (simp add: Apply_def combineValues_def r s Let_def)
  moreover have "Apply_p0 demoHost demoCluster ''broken.tpl'' ''default'' []
     = ([], Some (Wrapped ''could not render template'' (Failure ''unclosed action'')))"
    by (simp add: Apply_p0_def combineValues_def render_p0_def ParseFiles_def Let_def demoHost_def)
  ultimately show ?thesis using r by simp
qed

text \<open>
  C5 on part_000: the template \<^verbatim>\<open>{{ .a }}\<close> is rendered with \<^verbatim>\<open>a\<close> set to the
  fragment \<^verbatim>\<open>{{ .b }}\<close> and \<^verbatim>\<open>b\<close> set to \<^verbatim>\<open>x\<close>. The output of the one pass holds the
  marker, and part_000 returns it as it is, after one execution. On the same input
  kedge.go makes the second pass and returns \<^verbatim>\<open>x\<close>.
\<close>

theorem render_p0_single_pass:
  "render_p0 demoHost (Named ''a.tpl'') nestedValues []
     = ([Execute ''{{ .a }}'' nestedValues], Inr ''{{ .b }}'')
   \<and> Contains ''{{ .b }}'' ''{{''
   \<and> render demoHost (Named ''a.tpl'') nestedValues []
     = Some ([Execute ''{{ .a }}'' nestedValues, Execute ''{{ .b }}'' nestedValues], Inr ''x'')"
proof -
  have p: "ParseFiles demoHost (Named ''a.tpl'') = Inr ''{{ .a }}''"
    "ParseFiles demoHost (Temporary ''{{ .b }}'') = Inr ''{{ .b }}''"
    by (simp_all add: ParseFiles_def demoHost_def)
  have t: "tmpIO demoHost operation = None" for operation
    by (simp add: demoHost_def)
  have e: "tplExecute demoHost ''{{ .a }}'' nestedValues = Inr ''{{ .b }}''"
    "tplExecute demoHost ''{{ .b }}'' nestedValues = Inr ''x''"
    by (simp_all add: demoHost_def fieldAction_def nestedValues_def index_def suffix_to_prefix)
  have c: "fileContains demoHost ''{{ .b }}'' ''{{'' = Inr True"
    "fileContains demoHost ''x'' ''{{'' = Inr False"
    by (simp_all add: fileContains_def t dropCR_def maxScanTokenSize_def)
  have one: "render_p0 demoHost (Named ''a.tpl'') nestedValues []
     = ([Execute ''{{ .a }}'' nestedValues], Inr ''{{ .b }}'')"
    by (simp add: render_p0_def p t e ReadTemp_def)
  have two: "render demoHost (Named ''a.tpl'') nestedValues []
     = Some ([Execute ''{{ .a }}'' nestedValues, Execute ''{{ .b }}'' nestedValues], Inr ''x'')"
    using render_two_passes [OF p(1) t t e(1) c(1) p(2) e(2) c(2), of "[]"]
    by (simp add: ReadTemp_def t)
  from one two show ?thesis by simp
qed

text \<open>
  C8. In both copies of \<^verbatim>\<open>Apply\<close>, every execution of a template is given a parameter
  set whose \<^verbatim>\<open>namespace\<close> entry is the caller's namespace argument, whatever the value
  files define under that key: the entry is written after the value files are merged.
\<close>

theorem Apply_namespace_is_callers:
  "(\<forall>td \<in> set (executed (fst (Apply_p0 h config inputFilename namespace valueFilenames))).
       map_of (snd td) ''namespace'' = Some (VStr namespace))
   \<and> (Apply h config inputFilename namespace valueFilenames = Some (tr, err) \<longrightarrow>
        (\<forall>td \<in> set (executed tr). map_of (snd td) ''namespace'' = Some (VStr namespace)))"
proof (intro conjI impI)
  obtain merged failure where cv: "combineValues h valueFilenames False = (merged, failure)"
    by (cases "combineValues h valueFilenames False") auto
  let ?data = "assign merged ''namespace'' (VStr namespace)"
  have ns: "map_of ?data ''namespace'' = Some (VStr namespace)"
    by (simp add: map_of_assign)
  show "\<forall>td \<in> set (executed (fst (Apply_p0 h config inputFilename namespace valueFilenames))).
       map_of (snd td) ''namespace'' = Some (VStr namespace)"
  proof (cases "failure = None \<and> (\<exists>f. osStat h inputFilename = Inr f)")
    case False
    then show ?thesis
      by (auto simp: Apply_p0_def cv Let_def split: option.splits sum.splits)
  next
    case True
    then obtain f where ok: "failure = None" "osStat h inputFilename = Inr f" by auto
    obtain tr1 res where r: "render_p0 h (Named inputFilename) ?data [] = (tr1, res)"
      by (cases "render_p0 h (Named inputFilename) ?data []") auto
    from render_p0_executes_with_data [of h "Named inputFilename" ?data "[]"] r
    have tr1: "\<forall>td \<in> set (executed tr1). snd td = ?data" by auto
    show ?thesis
    proof (cases res)
      case (Inl e)
      then show ?thesis
        using tr1 ns by (simp add: Apply_p0_def cv ok r Let_def)
    next
      case (Inr b)
      from createOrUpdateResource_p0_trace(1) [of config "yamlUnmarshal h b" namespace tr1]
      obtain ext where
        "fst (createOrUpdateResource_p0 config (yamlUnmarshal h b) namespace tr1) = tr1 @ ext"
        "executed ext = []" by auto
      then show ?thesis
        using tr1 ns Inr by (simp add: Apply_p0_def cv ok r Let_def)
    qed
  qed
  assume run: "Apply h config inputFilename namespace valueFilenames = Some (tr, err)"
  show "\<forall>td \<in> set (executed tr). map_of (snd td) ''namespace'' = Some (VStr namespace)"
  proof (cases "failure = None \<and> (\<exists>f. osStat h inputFilename = Inr f)")
    case False
    with run show ?thesis
      by (auto simp: Apply_def cv Let_def split: option.splits sum.splits)
  next
    case True
    then obtain f where ok: "failure = None" "osStat h inputFilename = Inr f" by auto
    from run obtain tr1 res where r: "render h (Named inputFilename) ?data [] = Some (tr1, res)"
      by (auto simp: Apply_def cv ok Let_def split: option.splits)
    from render_executes_with_data [OF r]
    have tr1: "\<forall>td \<in> set (executed tr1). snd td = ?data" by auto
    show ?thesis
    proof (cases res)
      case (Inl e)
      with run have "tr = tr1" by (simp add: Apply_def cv ok r Let_def)
      then show ?thesis using tr1 ns by simp
    next
      case (Inr b)
      with run have tr: "tr = createOrUpdateResource config (yamlUnmarshal h b) namespace tr1"
        by (simp add: Apply_def cv ok r Let_def)
      from createOrUpdateResource_trace(1) [of config "yamlUnmarshal h b" namespace tr1]
      obtain ext where
        "createOrUpdateResource config (yamlUnmarshal h b) namespace tr1 = tr1 @ ext"
        "executed ext = []" by auto
      then show ?thesis
        using tr1 ns tr by simp
    qed
  qed
qed

theorem Apply_namespace_is_callers_witness:
  "map_of prodValues ''namespace'' = Some (VStr ''from-values'')
   \<and> executed (fst (Apply_p0 demoHost demoCluster ''a.tpl'' ''team-a'' [''base.yaml'', ''prod.yaml'']))
     = [(''{{ .a }}'',
         [(''env'', VStr ''prod''),
          (''db'', VMap [(''host'', VStr ''db.local''), (''port'', VNum 6432)]),
          (''namespace'', VStr ''team-a'')])]
   \<and> Apply demoHost demoCluster ''a.tpl'' ''team-a'' [''base.yaml'', ''prod.yaml'']
     = Some ([Execute ''{{ .a }}''
                [(''env'', VStr ''prod''),
                 (''db'', VMap [(''host'', VStr ''db.local''), (''port'', VNum 6432)]),
                 (''namespace'', VStr ''team-a'')],
              Log ''ERROR: could not unmarshal resource:'' []
                (Some (Failure ''Object Kind is missing''))], None)
   \<and> map_of [(''env'', VStr ''prod''),
              (''db'', VMap [(''host'', VStr ''db.local''), (''port'', VNum 6432)]),
              (''namespace'', VStr ''team-a'')] ''namespace'' = Some (VStr ''team-a'')"
proof -
  let ?data = "[(''env'', VStr ''prod''),
          (''db'', VMap [(''host'', VStr ''db.local''), (''port'', VNum 6432)]),
          (''namespace'', VStr ''team-a'')]"
  have reads: "readValues demoHost ''base.yaml'' = Inr baseValues"
    "readValues demoHost ''prod.yaml'' = Inr prodValues"
    by (simp_all add: readValues_def demoHost_def)
  have cv: "combineValues demoHost [''base.yaml'', ''prod.yaml''] False =
     ([(''env'', VStr ''prod''),
       (''db'', VMap [(''host'', VStr ''db.local''), (''port'', VNum 6432)]),
       (''namespace'', VStr ''from-values'')], None)"
    by (simp add: combineValues_def reads baseValues_def prodValues_def assign_def index_def)
  have st: "osStat demoHost ''a.tpl'' = Inr ''a.tpl''"
    by (simp add: demoHost_def)
  have p: "ParseFiles demoHost (Named ''a.tpl'') = Inr ''{{ .a }}''"
    by (simp add: ParseFiles_def demoHost_def)
  have t: "tmpIO demoHost operation = None" for operation
    by (simp add: demoHost_def)
  have e: "tplExecute demoHost ''{{ .a }}'' ?data = Inr ''<no value>''"
    by (simp add: demoHost_def fieldAction_def index_def suffix_to_prefix)
  have c: "fileContains demoHost ''<no value>'' ''{{'' = Inr False"
    by (simp add: fileContains_def t dropCR_def maxScanTokenSize_def)
  have u: "yamlUnmarshal demoHost b = Undecodable (Failure ''Object Kind is missing'')" for b
    by (simp add: demoHost_def)
  have one: "render_p0 demoHost (Named ''a.tpl'') ?data [] = ([Execute ''{{ .a }}'' ?data], Inr ''<no value>'')"
    by (simp add: render_p0_def p t e ReadTemp_def)
  have two: "render demoHost (Named ''a.tpl'') ?data [] = Some ([Execute ''{{ .a }}'' ?data], Inr ''<no value>'')"
    using render_done [OF p t t e c, of "[]"] by (simp add: ReadTemp_def t)
  have a0: "Apply_p0 demoHost demoCluster ''a.tpl'' ''team-a'' [''base.yaml'', ''prod.yaml'']
      = ([Execute ''{{ .a }}'' ?data],
         Some (Wrapped ''ERROR: could not unmarshal resource'' (Failure ''Object Kind is missing'')))"
    by (simp add: Apply_p0_def cv st assign_def one u)
  have a1: "Apply demoHost demoCluster ''a.tpl'' ''team-a'' [''base.yaml'', ''prod.yaml'']
     = Some ([Execute ''{{ .a }}'' ?data,
              Log ''ERROR: could not unmarshal resource:'' []
                (Some (Failure ''Object Kind is missing''))], None)"
    by (simp add: Apply_def cv st assign_def two u)
  have ex: "executed (fst (Apply_p0 demoHost demoCluster ''a.tpl'' ''team-a''
              [''base.yaml'', ''prod.yaml''])) = [(''{{ .a }}'', ?data)]"
    by (simp add: a0)
  have "map_of ?data ''namespace'' = Some (VStr ''team-a'')"
    using Apply_namespace_is_callers [of demoHost demoCluster "''a.tpl''" "''team-a''"
        "[''base.yaml'', ''prod.yaml'']"] ex
    by simp
  then show ?thesis
    using ex a1 by (simp add: prodValues_def)
qed

end
